theory Spec2Isabelle
  imports Complex_Main "HOL-Library.Monad_Syntax"
begin

section \<open>JavaScript numbers\<close>

text \<open>
  The chart component computes with JavaScript numbers. They are modelled as exact reals
  together with the three non-finite values that the arithmetic of the source can produce
  (a division by a zero reference price). Rounding to 53 bits is not modelled: every finite
  result is the exact real result. The real zero stands for the positive zero.
\<close>

datatype jsnum = Num real | PInf | NInf | NaN

fun jneg :: "jsnum \<Rightarrow> jsnum" where
  "jneg (Num a) = Num (- a)"
| "jneg PInf = NInf"
| "jneg NInf = PInf"
| "jneg NaN = NaN"

fun jabs :: "jsnum \<Rightarrow> jsnum" where
  "jabs (Num a) = Num \<bar>a\<bar>"
| "jabs PInf = PInf"
| "jabs NInf = PInf"
| "jabs NaN = NaN"

fun jadd :: "jsnum \<Rightarrow> jsnum \<Rightarrow> jsnum" where
  "jadd NaN _ = NaN"
| "jadd _ NaN = NaN"
| "jadd (Num a) (Num b) = Num (a + b)"
| "jadd PInf NInf = NaN"
| "jadd NInf PInf = NaN"
| "jadd PInf _ = PInf"
| "jadd _ PInf = PInf"
| "jadd NInf _ = NInf"
| "jadd _ NInf = NInf"

definition jsub :: "jsnum \<Rightarrow> jsnum \<Rightarrow> jsnum" where
  "jsub a b = jadd a (jneg b)"

text \<open>The sign of a product or quotient with an infinite operand follows the finite one.\<close>

definition signed_inf :: "jsnum \<Rightarrow> real \<Rightarrow> jsnum" where
  "signed_inf i a = (if a = 0 then NaN else if 0 < a then i else jneg i)"

fun jmul :: "jsnum \<Rightarrow> jsnum \<Rightarrow> jsnum" where
  "jmul NaN _ = NaN"
| "jmul _ NaN = NaN"
| "jmul (Num a) (Num b) = Num (a * b)"
| "jmul (Num a) i = signed_inf i a"
| "jmul i (Num b) = signed_inf i b"
| "jmul PInf PInf = PInf"
| "jmul NInf NInf = PInf"
| "jmul PInf NInf = NInf"
| "jmul NInf PInf = NInf"

fun jdiv :: "jsnum \<Rightarrow> jsnum \<Rightarrow> jsnum" where
  "jdiv NaN _ = NaN"
| "jdiv _ NaN = NaN"
| "jdiv (Num a) (Num b) =
     (if b \<noteq> 0 then Num (a / b)
      else if a = 0 then NaN else if 0 < a then PInf else NInf)"
| "jdiv (Num a) _ = Num 0"
| "jdiv i (Num b) = (if 0 \<le> b then i else jneg i)"
| "jdiv _ _ = NaN"

fun jgt :: "jsnum \<Rightarrow> jsnum \<Rightarrow> bool" where
  "jgt NaN _ = False"
| "jgt _ NaN = False"
| "jgt (Num a) (Num b) = (b < a)"
| "jgt PInf PInf = False"
| "jgt PInf _ = True"
| "jgt _ PInf = False"
| "jgt NInf _ = False"
| "jgt _ NInf = True"

text \<open>
  \<open>Math.max(...args)\<close>: NaN if an argument is NaN; otherwise the scan starts from
  \<open>-Infinity\<close> and keeps the larger value, so the call without arguments is
  \<open>-Infinity\<close>.
\<close>

definition Math_max :: "jsnum list \<Rightarrow> jsnum" where
  "Math_max args =
     (if NaN \<in> set args then NaN
      else fold (\<lambda>number highest. if jgt number highest then number else highest) args NInf)"

section \<open>The intraday chart: data\<close>

text \<open>
  One sample per time bucket. Prices are finite numbers; the volume is a count, taken as a
  natural number.
\<close>

record TimeSeriesData =
  time :: string
  price :: real
  volume :: nat
  avg_price :: real

subsection \<open>Symmetric axis domains\<close>

definition maxDev :: "real list \<Rightarrow> real list \<Rightarrow> real \<Rightarrow> jsnum" where
  "maxDev prices avgPrices preClose =
     Math_max (map (\<lambda>p. jabs (jsub (Num p) (Num preClose))) prices
             @ map (\<lambda>p. jabs (jsub (Num p) (Num preClose))) avgPrices
             @ [jmul (Num preClose) (Num 0.005)])"

definition yMin :: "real list \<Rightarrow> real list \<Rightarrow> real \<Rightarrow> jsnum" where
  "yMin prices avgPrices preClose =
     jsub (Num preClose) (jmul (maxDev prices avgPrices preClose) (Num 1.1))"

definition yMax :: "real list \<Rightarrow> real list \<Rightarrow> real \<Rightarrow> jsnum" where
  "yMax prices avgPrices preClose =
     jadd (Num preClose) (jmul (maxDev prices avgPrices preClose) (Num 1.1))"

definition maxChangePct :: "real list \<Rightarrow> real list \<Rightarrow> real \<Rightarrow> jsnum" where
  "maxChangePct prices avgPrices preClose =
     jmul (jmul (jdiv (maxDev prices avgPrices preClose) (Num preClose)) (Num 100)) (Num 1.1)"

subsection \<open>Numbers as text\<close>

text \<open>
  Decimal digits of a natural number, as \<open>Number.prototype.toString\<close> prints an integer.
\<close>

definition digit_char :: "nat \<Rightarrow> char" where
  "digit_char d = ''0123456789'' ! (d mod 10)"

fun digits :: "nat \<Rightarrow> string" where
  "digits n = (if n < 10 then [digit_char n] else digits (n div 10) @ [digit_char (n mod 10)])"

declare digits.simps [simp del]

text \<open>
  \<open>x.toString()\<close> for a finite number. JavaScript prints an integer of magnitude below
  \<open>10^21\<close> by its decimal digits. Every other finite number is printed from the shortest
  decimal that reads back as the same double, or in exponent notation; that depends on the
  binary representation and is outside this model: the result is \<open>None\<close> there.
\<close>

definition Number_toString :: "real \<Rightarrow> string option" where
  "Number_toString x =
     (if x = of_int \<lfloor>x\<rfloor> \<and> \<bar>x\<bar> < 10 ^ 21
      then Some ((if x < 0 then ''-'' else []) @ digits (nat \<lfloor>\<bar>x\<bar>\<rfloor>))
      else None)"

text \<open>
  \<open>x.toFixed(f)\<close> after ECMA-262, Number.prototype.toFixed, for \<open>f \<le> 100\<close> (the source
  calls it with 1 and 2): a non-finite number prints its name; the sign is split off; \<open>n\<close> is
  the integer nearest to \<open>x * 10^f\<close>, the larger one at a tie. At \<open>10^21\<close> and above
  JavaScript switches to exponent notation, which is not modelled (\<open>None\<close>).

  The digits of \<open>n\<close> are padded with zeros to \<open>f + 1\<close> characters and the point is put
  before the last \<open>f\<close> of them (\<open>place_point\<close>).
\<close>

definition place_point :: "nat \<Rightarrow> nat \<Rightarrow> string" where
  "place_point f n =
     (let m = (if n = 0 then ''0'' else digits n)
      in if f \<noteq> 0
         then (let k = length m;
                   m = (if k \<le> f then replicate (f + 1 - k) CHR ''0'' @ m else m);
                   k = (if k \<le> f then f + 1 else k);
                   a = take (k - f) m;
                   b = drop (k - f) m
               in a @ ''.'' @ b)
         else m)"

definition toFixed :: "nat \<Rightarrow> jsnum \<Rightarrow> string option" where
  "toFixed f x =
     (case x of
        NaN \<Rightarrow> Some ''NaN''
      | PInf \<Rightarrow> Some ''Infinity''
      | NInf \<Rightarrow> Some ''-Infinity''
      | Num r \<Rightarrow>
          (let s = (if r < 0 then ''-'' else []);
               x = (if r < 0 then - r else r)
           in if 10 ^ 21 \<le> x then None
              else Some (s @ place_point f (nat \<lfloor>x * 10 ^ f + 1 / 2\<rfloor>))))"

definition padStart :: "nat \<Rightarrow> char \<Rightarrow> string \<Rightarrow> string" where
  "padStart targetLength c s = replicate (targetLength - length s) c @ s"

text \<open>
  Text of the source that is not ASCII, as its UTF-8 bytes: the unit suffixes of the volume
  labels (ten thousand, thousand), the three series names and the labels of the
  header line.
\<close>

definition wan :: string where
  "wan = [CHR 0xE4, CHR 0xB8, CHR 0x87]"


definition name_price :: string where
  "name_price = [CHR 0xE4, CHR 0xBB, CHR 0xB7, CHR 0xE6, CHR 0xA0, CHR 0xBC]"

definition name_avg :: string where
  "name_avg = [CHR 0xE5, CHR 0x9D, CHR 0x87, CHR 0xE4, CHR 0xBB, CHR 0xB7]"

definition name_volume :: string where
  "name_volume = [CHR 0xE6, CHR 0x88, CHR 0x90, CHR 0xE4, CHR 0xBA, CHR 0xA4, CHR 0xE9, CHR 0x87, CHR 0x8F]"

definition label_change :: string where
  "label_change = [CHR 0xE6, CHR 0xB6, CHR 0xA8, CHR 0xE5, CHR 0xB9, CHR 0x85]"

subsection \<open>Volume bar colours\<close>

text \<open>
  An array read: \<open>undefined\<close> outside the array. A comparison \<open>>=\<close> with an
  \<open>undefined\<close> operand is false.
\<close>

definition elem_at :: "'a list \<Rightarrow> nat \<Rightarrow> 'a option" where
  "elem_at xs i = (if i < length xs then Some (xs ! i) else None)"

definition ge_defined :: "real option \<Rightarrow> real option \<Rightarrow> bool" where
  "ge_defined a b = (case (a, b) of (Some x, Some y) \<Rightarrow> y \<le> x | _ \<Rightarrow> False)"

abbreviation up_rgba :: string where
  "up_rgba \<equiv> ''rgba(220, 38, 38, 0.7)''"

abbreviation down_rgba :: string where
  "down_rgba \<equiv> ''rgba(22, 163, 74, 0.7)''"

definition volumeColors :: "nat list \<Rightarrow> real list \<Rightarrow> real \<Rightarrow> string list" where
  "volumeColors volumes prices preClose =
     map (\<lambda>idx.
            if idx = 0
            then (if ge_defined (elem_at prices idx) (Some preClose) then up_rgba else down_rgba)
            else (if ge_defined (elem_at prices idx) (elem_at prices (idx - 1)) then up_rgba else down_rgba))
         [0 ..< length volumes]"

subsection \<open>Axis labels\<close>

text \<open>
  The colour callbacks of the price axis and of the percentage axis. The renderer calls
  them with the value of an axis tick, here a finite number.
\<close>

abbreviation red :: string where
  "red \<equiv> ''#dc2626''"

abbreviation green :: string where
  "green \<equiv> ''#16a34a''"

abbreviation grey :: string where
  "grey \<equiv> ''#64748b''"




subsection \<open>Tooltip\<close>

text \<open>
  The tooltip callback reads the clock (\<open>new Date()\<close>); the reading is an argument of the
  model. The callback returns HTML; the model keeps, row by row, the colour and the text
  that the source interpolates and leaves the constant markup out.
\<close>

record Date =
  getFullYear :: nat
  getMonth :: nat
  getDate :: nat

definition dateStr :: "Date \<Rightarrow> string" where
  "dateStr today =
     digits (getFullYear today) @ ''-''
     @ padStart 2 CHR ''0'' (digits (getMonth today + 1)) @ ''-''
     @ padStart 2 CHR ''0'' (digits (getDate today))"

record tooltip_item =
  seriesName :: string
  axisValue :: string
  item_value :: real

datatype tooltip_row =
    Price_row string string
  | Change_row string string
  | Avg_row string
  | Volume_row string

datatype tooltip_html = Empty_html | Html string "tooltip_row list"

definition volStr :: "real \<Rightarrow> string option" where
  "volStr vol =
     (if vol \<ge> 10000 then map_option (\<lambda>s. s @ wan) (toFixed 2 (jdiv (Num vol) (Num 10000)))
      else Number_toString vol)"

text \<open>The colour of the price rows of the tooltip, from the sign of the change.\<close>

definition change_color :: "real \<Rightarrow> string" where
  "change_color change = (if change \<ge> 0 then red else green)"

definition tooltip_rows :: "real \<Rightarrow> tooltip_item \<Rightarrow> tooltip_row list option" where
  "tooltip_rows preClose item =
     (if seriesName item = name_price then
        (let price = item_value item;
             change = price - preClose;
             color = change_color change
         in do {
              changePct \<leftarrow> toFixed 2 (jmul (jdiv (Num change) (Num preClose)) (Num 100));
              p \<leftarrow> toFixed 2 (Num price);
              c \<leftarrow> toFixed 2 (Num change);
              Some [Price_row color p,
                    Change_row color
                      ((if change \<ge> 0 then ''+'' else []) @ c @ '' (''
                       @ (if change \<ge> 0 then ''+'' else []) @ changePct @ ''%)'')]
            })
      else if seriesName item = name_avg then
        do { a \<leftarrow> toFixed 2 (Num (item_value item)); Some [Avg_row a] }
      else if seriesName item = name_volume then
        do { v \<leftarrow> volStr (item_value item); Some [Volume_row v] }
      else Some [])"

fun forEach_rows :: "real \<Rightarrow> tooltip_item list \<Rightarrow> tooltip_row list option" where
  "forEach_rows preClose [] = Some []"
| "forEach_rows preClose (item # items) =
     do { r \<leftarrow> tooltip_rows preClose item;
          rs \<leftarrow> forEach_rows preClose items;
          Some (r @ rs) }"

definition tooltip_formatter :: "Date \<Rightarrow> real \<Rightarrow> tooltip_item list \<Rightarrow> tooltip_html option" where
  "tooltip_formatter today preClose params =
     (case params of
        [] \<Rightarrow> Some Empty_html
      | first # _ \<Rightarrow>
          do { rows \<leftarrow> forEach_rows preClose params;
               Some (Html (dateStr today @ '' '' @ axisValue first) rows) })"

text \<open>
  With \<open>trigger: 'axis'\<close> the renderer passes one item per series at the hovered
  position of the x axis: the three series of the option at that index.
\<close>

definition axis_params :: "TimeSeriesData list \<Rightarrow> nat \<Rightarrow> tooltip_item list" where
  "axis_params data idx =
     (if idx < length data
      then (let d = data ! idx
            in [\<lparr>seriesName = name_price, axisValue = time d, item_value = price d\<rparr>,
                \<lparr>seriesName = name_avg, axisValue = time d, item_value = avg_price d\<rparr>,
                \<lparr>seriesName = name_volume, axisValue = time d, item_value = real (volume d)\<rparr>])
      else [])"

subsection \<open>The chart option and the component\<close>

record graphic_element =
  style_text :: "string option"
  style_fill :: string

record chart_option =
  graphic :: "graphic_element list"
  xAxis_data :: "string list"
  yAxis0_min :: jsnum
  yAxis0_max :: jsnum
  yAxis1_min :: jsnum
  yAxis1_max :: jsnum
  series_price :: "real list"
  markLine_yAxis :: real
  series_avg :: "real list"
  series_volume :: "(nat \<times> string) list"

text \<open>
  The header line over the chart, present when a stock name is given and not empty (an
  absent or empty string is false in a condition): the name with the optional code, then
  the latest price, change and volume. The effect builds it from non-empty lists only, so
  the last elements exist. A text is \<open>None\<close> when one of its numbers is outside the
  range in which printing is modelled.
\<close>

definition header_graphic ::
  "real list \<Rightarrow> nat list \<Rightarrow> real \<Rightarrow> string option \<Rightarrow> string option \<Rightarrow> graphic_element list" where
  "header_graphic prices volumes preClose stockName stockCode =
     (let latestPrice = last prices;
          latestChange = latestPrice - preClose;
          latestChangePct = toFixed 2 (jmul (jdiv (Num latestChange) (Num preClose)) (Num 100));
          latestVolume = last volumes
      in case stockName of
           None \<Rightarrow> []
         | Some name \<Rightarrow>
             if name = [] then []
             else
               [\<lparr>style_text =
                   Some (name @ (case stockCode of
                                   None \<Rightarrow> []
                                 | Some code \<Rightarrow> if code = [] then [] else '' ['' @ code @ '']'')),
                 style_fill = grey\<rparr>,
                \<lparr>style_text =
                   do { p \<leftarrow> toFixed 2 (Num latestPrice);
                        pct \<leftarrow> latestChangePct;
                        vol \<leftarrow> Number_toString (real latestVolume);
                        Some (name_price @ '':'' @ p @ ''  '' @ label_change @ '':''
                              @ (if latestChange \<ge> 0 then ''+'' else []) @ pct
                              @ ''%  '' @ name_volume @ '':'' @ vol) },
                 style_fill = (if latestChange \<ge> 0 then red else green)\<rparr>])"

text \<open>
  The effect of the component: it returns at once when the container is missing or the
  data are empty, and otherwise builds the chart option that is handed to the renderer.
  Styling constants of the option are left out.
\<close>

definition TimeSeriesChart_effect ::
  "bool \<Rightarrow> TimeSeriesData list \<Rightarrow> real \<Rightarrow> string option \<Rightarrow> string option \<Rightarrow> chart_option option" where
  "TimeSeriesChart_effect container data preClose stockName stockCode =
     (if \<not> container \<or> length data = 0 then None
      else
        (let times = map time data;
             prices = map price data;
             avgPrices = map avg_price data;
             volumes = map volume data
         in Some \<lparr>graphic = header_graphic prices volumes preClose stockName stockCode,
                  xAxis_data = times,
                  yAxis0_min = yMin prices avgPrices preClose,
                  yAxis0_max = yMax prices avgPrices preClose,
                  yAxis1_min = jneg (maxChangePct prices avgPrices preClose),
                  yAxis1_max = maxChangePct prices avgPrices preClose,
                  series_price = prices,
                  markLine_yAxis = preClose,
                  series_avg = avgPrices,
                  series_volume = zip volumes (volumeColors volumes prices preClose)\<rparr>))"

text \<open>
  What the component renders under the legend: the chart container when there are data,
  otherwise the notice that there are no intraday data.
\<close>

datatype rendered = Chart_container | No_data_notice

definition TimeSeriesChart_render :: "TimeSeriesData list \<Rightarrow> rendered" where
  "TimeSeriesChart_render data = (if length data > 0 then Chart_container else No_data_notice)"

text \<open>The container exists when the effect runs exactly if the render produced it.\<close>

definition TimeSeriesChart ::
  "TimeSeriesData list \<Rightarrow> real \<Rightarrow> string option \<Rightarrow> string option \<Rightarrow> rendered \<times> chart_option option" where
  "TimeSeriesChart data preClose stockName stockCode =
     (let body = TimeSeriesChart_render data
      in (body, TimeSeriesChart_effect (body = Chart_container) data preClose stockName stockCode))"

text \<open>
  One run of the whole: the component is rendered and its effect runs, then the renderer
  asks the tooltip callback for the text at every position of the x axis while the clock
  reads \<open>today\<close>.
\<close>

definition run ::
  "Date \<Rightarrow> TimeSeriesData list \<Rightarrow> real \<Rightarrow> string option \<Rightarrow> string option
     \<Rightarrow> (rendered \<times> chart_option option) \<times> tooltip_html option list" where
  "run today data preClose stockName stockCode =
     (TimeSeriesChart data preClose stockName stockCode,
      map (\<lambda>idx. tooltip_formatter today preClose (axis_params data idx)) [0 ..< length data])"

section \<open>The specification's wording\<close>

text \<open>
  The maximum deviation: the largest distance of a price or an average price from the
  reference, and at least half a percent of the reference.
\<close>

definition spec_maxDeviation :: "TimeSeriesData list \<Rightarrow> real \<Rightarrow> real" where
  "spec_maxDeviation samples reference =
     Max ((\<lambda>s. \<bar>price s - reference\<bar>) ` set samples
          \<union> (\<lambda>s. \<bar>avg_price s - reference\<bar>) ` set samples
          \<union> {reference * 0.005})"




text \<open>
  A number with \<open>f\<close> decimals: the nearest multiple of \<open>10^-f\<close> written as integer part,
  point and exactly \<open>f\<close> decimal digits.
\<close>

primrec fixed_width :: "nat \<Rightarrow> nat \<Rightarrow> string" where
  "fixed_width 0 m = []"
| "fixed_width (Suc f) m = fixed_width f (m div 10) @ [digit_char (m mod 10)]"



section \<open>The axis domains\<close>

subsection \<open>The maximum deviation\<close>







lemma spec_maxDeviation_ge_avg:
  "s \<in> set samples \<Longrightarrow> \<bar>avg_price s - reference\<bar> \<le> spec_maxDeviation samples reference"
  unfolding spec_maxDeviation_def by (rule Max_ge) auto



subsection \<open>The domains handed to the renderer\<close>


lemma effect_Some:
  "data \<noteq> [] \<Longrightarrow> \<exists>opt. TimeSeriesChart_effect True data preClose stockName stockCode = Some opt"
  by (simp add: TimeSeriesChart_effect_def Let_def)









section \<open>The colours of the volume bars\<close>

lemma length_volumeColors [simp]:
  "length (volumeColors volumes prices preClose) = length volumes"
  by (simp add: volumeColors_def)


lemma volumeColors_later:
  "0 < i \<Longrightarrow> i < length volumes \<Longrightarrow> i < length prices \<Longrightarrow>
     volumeColors volumes prices preClose ! i
       = (if prices ! (i - 1) \<le> prices ! i then up_rgba else down_rgba)"
proof -
  assume a: "0 < i" "i < length volumes" "i < length prices"
  then have "i - 1 < length prices" by arith
  with a show ?thesis by (simp add: volumeColors_def elem_at_def ge_defined_def)
qed

lemma effect_series_volume:
  "TimeSeriesChart_effect True data preClose stockName stockCode = Some opt \<Longrightarrow>
     series_volume opt = zip (map volume data) (volumeColors (map volume data) (map price data) preClose)"
  by (auto simp: TimeSeriesChart_effect_def Let_def split: if_splits)

lemma effect_bar_colour:
  assumes "TimeSeriesChart_effect True data preClose stockName stockCode = Some opt"
    and "i < length data"
  shows "snd (series_volume opt ! i) = volumeColors (map volume data) (map price data) preClose ! i"
  using assms by (simp add: effect_series_volume)

text \<open>
  Claim C5. For every sample after the first, the volume bar takes the up colour exactly
  when the price of the sample is not below the price of the sample before it, so that a
  tie counts as up; otherwise it takes the down colour.
\<close>

theorem bar_up_iff_not_below_previous:
  assumes "0 < i" and "i < length data"
  shows "\<exists>opt. TimeSeriesChart_effect True data preClose stockName stockCode = Some opt
           \<and> length (series_volume opt) = length data
           \<and> (snd (series_volume opt ! i) = up_rgba \<longleftrightarrow> price (data ! (i - 1)) \<le> price (data ! i))
           \<and> (snd (series_volume opt ! i) = down_rgba \<longleftrightarrow> price (data ! i) < price (data ! (i - 1)))"
proof -
  from assms have "data \<noteq> []" by auto
  from effect_Some [OF this] obtain opt
    where opt: "TimeSeriesChart_effect True data preClose stockName stockCode = Some opt" by blast
  have len: "length (series_volume opt) = length data"
    by (simp add: effect_series_volume [OF opt])
  have "snd (series_volume opt ! i)
          = (if price (data ! (i - 1)) \<le> price (data ! i) then up_rgba else down_rgba)"
    using assms by (simp add: effect_bar_colour [OF opt] volumeColors_later)
  then have "(snd (series_volume opt ! i) = up_rgba \<longleftrightarrow> price (data ! (i - 1)) \<le> price (data ! i))
           \<and> (snd (series_volume opt ! i) = down_rgba \<longleftrightarrow> price (data ! i) < price (data ! (i - 1)))"
    by auto
  with opt len show ?thesis by blast
qed

theorem bar_up_iff_not_below_previous_witness:
  "\<exists>opt. TimeSeriesChart_effect True
            [\<lparr>time = ''09:30'', price = 10, volume = 40, avg_price = 10\<rparr>,
             \<lparr>time = ''09:31'', price = 10, volume = 25, avg_price = 10\<rparr>] 12 None None = Some opt
     \<and> snd (series_volume opt ! 1) = up_rgba"
proof -
  let ?d = "[\<lparr>time = ''09:30'', price = 10, volume = 40, avg_price = 10\<rparr>,
             \<lparr>time = ''09:31'', price = 10, volume = 25, avg_price = 10\<rparr>]"
  have h1: "(0::nat) < 1" by simp
  have h2: "1 < length ?d" by simp
  from bar_up_iff_not_below_previous [OF h1 h2, of 12 None None]
  show ?thesis by auto
qed



text \<open>
  Claim C10. The colours of the volume bars depend on the prices and the reference price
  only: two inputs with the same prices get the same colours, whatever their volumes (and
  times and average prices) are.
\<close>

theorem bar_colours_ignore_volumes:
  assumes "map price data1 = map price data2"
  shows "volumeColors (map volume data1) (map price data1) preClose
           = volumeColors (map volume data2) (map price data2) preClose
       \<and> map_option (\<lambda>opt. map snd (series_volume opt))
           (TimeSeriesChart_effect True data1 preClose stockName stockCode)
         = map_option (\<lambda>opt. map snd (series_volume opt))
           (TimeSeriesChart_effect True data2 preClose stockName stockCode)"
proof -
  from assms have "length (map price data1) = length (map price data2)" by simp
  then have len: "length data1 = length data2" by simp
  have eq: "volumeColors (map volume data1) (map price data1) preClose
           = volumeColors (map volume data2) (map price data2) preClose"
    using assms len by (simp add: volumeColors_def)
  have "map snd (zip (map volume d) (volumeColors (map volume d) (map price d) preClose))
          = volumeColors (map volume d) (map price d) preClose" for d :: "TimeSeriesData list"
    by (simp add: map_snd_zip)
  then show ?thesis
    using eq len by (simp add: TimeSeriesChart_effect_def Let_def)
qed

theorem bar_colours_ignore_volumes_witness:
  "volumeColors
     (map volume [\<lparr>time = ''09:30'', price = 10, volume = 40, avg_price = 10\<rparr>,
                  \<lparr>time = ''09:31'', price = 9, volume = 7, avg_price = 10\<rparr>])
     (map price [\<lparr>time = ''09:30'', price = 10, volume = 40, avg_price = 10\<rparr>,
                 \<lparr>time = ''09:31'', price = 9, volume = 7, avg_price = 10\<rparr>]) 10
   = volumeColors
     (map volume [\<lparr>time = ''09:30'', price = 10, volume = 0, avg_price = 10\<rparr>,
                  \<lparr>time = ''09:31'', price = 9, volume = 99999, avg_price = 10\<rparr>])
     (map price [\<lparr>time = ''09:30'', price = 10, volume = 0, avg_price = 10\<rparr>,
                 \<lparr>time = ''09:31'', price = 9, volume = 99999, avg_price = 10\<rparr>]) 10"
proof -
  have h: "map price [\<lparr>time = ''09:30'', price = 10, volume = 40, avg_price = 10\<rparr>,
                      \<lparr>time = ''09:31'', price = 9, volume = 7, avg_price = 10\<rparr>]
         = map price [\<lparr>time = ''09:30'', price = 10, volume = 0, avg_price = 10\<rparr>,
                      \<lparr>time = ''09:31'', price = 9, volume = 99999, avg_price = 10\<rparr>]"
    by simp
  from bar_colours_ignore_volumes [OF h, of 10 None None] show ?thesis by blast
qed

section \<open>Empty data\<close>

text \<open>
  Claim C7. For the empty sample sequence the effect returns before anything is computed,
  so no chart option is produced and nothing is raised, whether or not a container exists;
  the component renders the notice that there are no data in place of the chart.
\<close>

theorem empty_sequence_no_chart:
  "TimeSeriesChart [] preClose stockName stockCode = (No_data_notice, None)
   \<and> TimeSeriesChart_render [] = No_data_notice
   \<and> TimeSeriesChart_effect container [] preClose stockName stockCode = None"
  by (simp add: TimeSeriesChart_def TimeSeriesChart_render_def TimeSeriesChart_effect_def)

theorem empty_sequence_no_chart_witness:
  "TimeSeriesChart [] 10 (Some ''abc'') None = (No_data_notice, None)
   \<and> TimeSeriesChart_render [] = No_data_notice
   \<and> TimeSeriesChart_effect True [] 10 (Some ''abc'') None = None"
  by (rule empty_sequence_no_chart)

section \<open>Comparison with the reference price\<close>




section \<open>Runs on the same input\<close>

lemma tooltip_formatter_Cons:
  "tooltip_formatter today preClose (first # rest)
     = map_option (Html (dateStr today @ '' '' @ axisValue first)) (forEach_rows preClose (first # rest))"
  by (cases "forEach_rows preClose (first # rest)") (simp_all add: tooltip_formatter_def)

lemma tooltip_formatter_same_date:
  "dateStr today1 = dateStr today2 \<Longrightarrow>
     tooltip_formatter today1 preClose params = tooltip_formatter today2 preClose params"
  by (cases params) (simp_all add: tooltip_formatter_def)

lemma tooltip_formatter_dates:
  assumes "params \<noteq> []"
    and "tooltip_formatter today1 preClose params = Some h1"
    and "tooltip_formatter today2 preClose params = Some h2"
  shows "h1 = h2 \<longleftrightarrow> dateStr today1 = dateStr today2"
proof -
  from assms(1) obtain first rest where p: "params = first # rest" by (cases params) auto
  from assms(2) obtain rows where rows: "forEach_rows preClose params = Some rows"
    and h1: "h1 = Html (dateStr today1 @ '' '' @ axisValue first) rows"
    unfolding p tooltip_formatter_Cons by auto
  from assms(3) rows have h2: "h2 = Html (dateStr today2 @ '' '' @ axisValue first) rows"
    unfolding p tooltip_formatter_Cons by auto
  show ?thesis unfolding h1 h2 by simp
qed

lemma axis_params_not_empty: "idx < length data \<Longrightarrow> axis_params data idx \<noteq> []"
  by (simp add: axis_params_def Let_def)

lemma tooltip_on_5_January:
  "tooltip_formatter \<lparr>getFullYear = 2024, getMonth = 0, getDate = 5\<rparr> 10
     (axis_params [\<lparr>time = ''09:30'', price = 10, volume = 1500, avg_price = 10\<rparr>] 0)
     = Some (Html ''2024-01-05 09:30''
         [Price_row red ''10.00'', Change_row red ''+0.00 (+0.00%)'', Avg_row ''10.00'',
          Volume_row ''1500''])"
  by (simp add: tooltip_formatter_def axis_params_def tooltip_rows_def name_price_def name_avg_def
        name_volume_def change_color_def volStr_def Number_toString_def toFixed_def place_point_def Let_def
        digits.simps digit_char_def dateStr_def padStart_def)

lemma tooltip_on_6_January:
  "tooltip_formatter \<lparr>getFullYear = 2024, getMonth = 0, getDate = 6\<rparr> 10
     (axis_params [\<lparr>time = ''09:30'', price = 10, volume = 1500, avg_price = 10\<rparr>] 0)
     = Some (Html ''2024-01-06 09:30''
         [Price_row red ''10.00'', Change_row red ''+0.00 (+0.00%)'', Avg_row ''10.00'',
          Volume_row ''1500''])"
  by (simp add: tooltip_formatter_def axis_params_def tooltip_rows_def name_price_def name_avg_def
        name_volume_def change_color_def volStr_def Number_toString_def toFixed_def place_point_def Let_def
        digits.simps digit_char_def dateStr_def padStart_def)

text \<open>
  Claim C8 says that two runs on the same samples and reference price give the same output
  in full. The tooltip text is part of the output and starts with the date the clock shows
  when the tooltip is asked for: the same samples give different tooltips on 5 and on
  6 January.
\<close>

theorem tooltip_reads_clock_counterexample:
  "tooltip_formatter \<lparr>getFullYear = 2024, getMonth = 0, getDate = 5\<rparr> 10
     (axis_params [\<lparr>time = ''09:30'', price = 10, volume = 1500, avg_price = 10\<rparr>] 0)
   \<noteq> tooltip_formatter \<lparr>getFullYear = 2024, getMonth = 0, getDate = 6\<rparr> 10
     (axis_params [\<lparr>time = ''09:30'', price = 10, volume = 1500, avg_price = 10\<rparr>] 0)"
  unfolding tooltip_on_5_January tooltip_on_6_January by simp

text \<open>
  Claim C8, amended. Two runs on the same samples, reference price, stock name and stock
  code render the same component and build the same chart option (domains, bar colours,
  header) whatever the clock reads; they give the same tooltip texts when the clock shows
  the same date in both; and at any position of the x axis two tooltip texts are equal
  exactly when the dates are.
\<close>

theorem option_ignores_clock_tooltip_follows_date:
  "fst (run today1 data preClose stockName stockCode) = fst (run today2 data preClose stockName stockCode)
   \<and> (dateStr today1 = dateStr today2 \<longrightarrow>
        run today1 data preClose stockName stockCode = run today2 data preClose stockName stockCode)
   \<and> (idx < length data
        \<and> tooltip_formatter today1 preClose (axis_params data idx) = Some h1
        \<and> tooltip_formatter today2 preClose (axis_params data idx) = Some h2 \<longrightarrow>
        (h1 = h2 \<longleftrightarrow> dateStr today1 = dateStr today2))"
proof (intro conjI impI)
  show "fst (run today1 data preClose stockName stockCode) = fst (run today2 data preClose stockName stockCode)"
    by (simp add: run_def)
next
  assume "dateStr today1 = dateStr today2"
  then show "run today1 data preClose stockName stockCode = run today2 data preClose stockName stockCode"
    by (simp add: run_def tooltip_formatter_same_date [of today1 today2])
next
  assume a: "idx < length data
        \<and> tooltip_formatter today1 preClose (axis_params data idx) = Some h1
        \<and> tooltip_formatter today2 preClose (axis_params data idx) = Some h2"
  then have "axis_params data idx \<noteq> []" by (simp add: axis_params_not_empty)
  from tooltip_formatter_dates [OF this] a show "h1 = h2 \<longleftrightarrow> dateStr today1 = dateStr today2"
    by blast
qed

theorem option_ignores_clock_tooltip_follows_date_witness:
  "run \<lparr>getFullYear = 2024, getMonth = 0, getDate = 5\<rparr>
       [\<lparr>time = ''09:30'', price = 10, volume = 1500, avg_price = 10\<rparr>] 10 None None
     = run \<lparr>getFullYear = 2024, getMonth = 0, getDate = 5\<rparr>
       [\<lparr>time = ''09:30'', price = 10, volume = 1500, avg_price = 10\<rparr>] 10 None None
   \<and> (Html ''2024-01-05 09:30''
         [Price_row red ''10.00'', Change_row red ''+0.00 (+0.00%)'', Avg_row ''10.00'',
          Volume_row ''1500'']
       = Html ''2024-01-06 09:30''
         [Price_row red ''10.00'', Change_row red ''+0.00 (+0.00%)'', Avg_row ''10.00'',
          Volume_row ''1500'']
      \<longleftrightarrow> dateStr \<lparr>getFullYear = 2024, getMonth = 0, getDate = 5\<rparr>
            = dateStr \<lparr>getFullYear = 2024, getMonth = 0, getDate = 6\<rparr>)"
proof -
  let ?d = "[\<lparr>time = ''09:30'', price = 10, volume = 1500, avg_price = 10\<rparr>]"
  let ?t5 = "\<lparr>getFullYear = 2024, getMonth = 0, getDate = 5\<rparr>"
  let ?t6 = "\<lparr>getFullYear = 2024, getMonth = 0, getDate = 6\<rparr>"
  let ?rows = "[Price_row red ''10.00'', Change_row red ''+0.00 (+0.00%)'', Avg_row ''10.00'',
          Volume_row ''1500'']"
  have i: "0 < length ?d" by simp
  note e5 = tooltip_on_5_January
  note e6 = tooltip_on_6_January
  note t = option_ignores_clock_tooltip_follows_date
             [of ?t5 ?d 10 None None ?t6 0 "Html ''2024-01-05 09:30'' ?rows" "Html ''2024-01-06 09:30'' ?rows"]
  note s = option_ignores_clock_tooltip_follows_date
             [of ?t5 ?d 10 None None ?t5 0 "Html ''2024-01-05 09:30'' ?rows" "Html ''2024-01-05 09:30'' ?rows"]
  have c2: "run ?t5 ?d 10 None None = run ?t5 ?d 10 None None"
    by (rule s [THEN conjunct2, THEN conjunct1, THEN mp]) (rule refl)
  have c3: "Html ''2024-01-05 09:30'' ?rows = Html ''2024-01-06 09:30'' ?rows
             \<longleftrightarrow> dateStr ?t5 = dateStr ?t6"
    by (rule t [THEN conjunct2, THEN conjunct2, THEN mp]) (intro conjI i e5 e6)
  from c2 c3 show ?thesis by (rule conjI)
qed

section \<open>Volume labels\<close>

subsection \<open>Decimal digits\<close>





lemma length_fixed_width [simp]: "length (fixed_width f m) = f"
  by (induction f arbitrary: m) simp_all








subsection \<open>Fixed-point text\<close>



subsection \<open>The two abbreviations\<close>








end
